theory Spec2Isabelle
  imports Complex_Main "HOL-Library.Sublist" "HOL-Library.Multiset"
begin

section \<open>Python values and exceptions\<close>

text \<open>
  The worker exchanges JSON documents and raises Python exceptions. A JSON document,
  once decoded by \<^verbatim>\<open>json.loads\<close>, is a Python value; a Python \<^verbatim>\<open>dict\<close> keeps its
  insertion order, so an object is an association list. A Python \<^verbatim>\<open>float\<close> is read
  as the real number it stands for (the comparisons and the sort of the source do no
  rounding of their own); \<^verbatim>\<open>NaN\<close> and the infinities, which \<^verbatim>\<open>json.loads\<close> also
  accepts, are kept by name.
\<close>

datatype json =
    JNull
  | JBool bool
  | JInt int
  | JFloat real
  | JSpecial string
  | JStr string
  | JArr "json list"
  | JObj "(string \<times> json) list"

text \<open>
  An exception instance, as the worker observes it: \<^verbatim>\<open>type(e).__name__\<close> and
  \<^verbatim>\<open>str(e)\<close>. Values of this type stand for instances of subclasses of
  \<^verbatim>\<open>Exception\<close>; \<^verbatim>\<open>SystemExit\<close>, which is not one, is treated apart
  (section on signals).
\<close>

datatype exn = Exn (exn_type: string) (exn_msg: string)

section \<open>Inference pipeline: derived fields (src/ai/inference\_server.py)\<close>

definition classes :: "string list" where
  "classes = [''Healthy'', ''Pest_Fungal'', ''Pest_Bacterial'', ''Pest_Insect'',
              ''Nutrient_Nitrogen'', ''Nutrient_Potassium'', ''Water_Stress'', ''Not_Plant'']"

text \<open>\<^verbatim>\<open>str.startswith\<close> is the prefix test on character lists.\<close>

definition startswith :: "string \<Rightarrow> string \<Rightarrow> bool" where
  "startswith s p = prefix p s"

text \<open>
  \<^verbatim>\<open>s.replace(old, new)\<close> replaces every non-overlapping occurrence of \<^verbatim>\<open>old\<close>,
  scanning from the left; with an empty \<^verbatim>\<open>old\<close> it inserts \<^verbatim>\<open>new\<close> before every
  character and at the end.
\<close>

function replace :: "string \<Rightarrow> string \<Rightarrow> string \<Rightarrow> string" where
  "replace s old new =
     (if old = [] then new @ concat (map (\<lambda>c. c # new) s)
      else if s = [] then []
      else if prefix old s then new @ replace (drop (length old) s) old new
      else hd s # replace (tl s) old new)"
  by pat_completeness auto
termination
  by (relation "measure (\<lambda>(s, old, new). length s)") auto

declare replace.simps [simp del]

definition parse_class_name :: "string \<Rightarrow> string \<times> string option" where
  "parse_class_name class_name =
     (if startswith class_name ''Pest_'' then (''Pest'', Some (replace class_name ''Pest_'' ''''))
      else if startswith class_name ''Nutrient_''
        then (''Nutrient Deficiency'', Some (replace class_name ''Nutrient_'' ''''))
      else if class_name = ''Healthy'' then (''Healthy'', None)
      else if class_name = ''Water_Stress'' then (''Water Stress'', None)
      else if class_name = ''Not_Plant'' then (''Invalid Input'', None)
      else (class_name, None))"

definition get_confidence_level :: "real \<Rightarrow> string" where
  "get_confidence_level confidence =
     (if confidence \<ge> 0.85 then ''Very High''
      else if confidence \<ge> 0.70 then ''High''
      else if confidence \<ge> 0.55 then ''Moderate''
      else ''Low'')"

text \<open>
  \<^verbatim>\<open>np.argmax\<close>: the index of the first occurrence of the maximum (a later element
  replaces the running best only when strictly greater).
\<close>

fun argmax_from :: "real list \<Rightarrow> nat \<Rightarrow> nat \<Rightarrow> real \<Rightarrow> nat" where
  "argmax_from [] i best best_val = best"
| "argmax_from (x # xs) i best best_val =
     (if x > best_val then argmax_from xs (Suc i) i x
      else argmax_from xs (Suc i) best best_val)"

definition argmax :: "real list \<Rightarrow> nat" where
  "argmax xs = (case xs of [] \<Rightarrow> 0 | x # rest \<Rightarrow> argmax_from rest 1 0 x)"

text \<open>
  \<^verbatim>\<open>list.sort(key=..., reverse=True)\<close>: the list is reversed, sorted stably in
  ascending key order, and reversed again; \<^const>\<open>sort_key\<close> is a stable ascending sort.
\<close>

definition sort_reverse :: "('a \<Rightarrow> real) \<Rightarrow> 'a list \<Rightarrow> 'a list" where
  "sort_reverse f xs = rev (sort_key f (rev xs))"

text \<open>Decimal digits of a natural number, for the messages that print an index.\<close>

fun str_nat :: "nat \<Rightarrow> string" where
  "str_nat n =
     (if n < 10 then [char_of (48 + n)]
      else str_nat (n div 10) @ [char_of (48 + n mod 10)])"

declare str_nat.simps [simp del]

text \<open>
  What the worker takes from outside the repository: the decoder of standard input,
  the JSON decoder, the file tests
  and the image decoder applied to whatever value the request carries, the network's
  forward pass, number formatting, and (further down) the cipher and the checkpoint
  loader. An external call either returns or raises.
\<close>

type_synonym bytes = string

text \<open>
  A \<^verbatim>\<open>Fernet\<close> object: \<^verbatim>\<open>encrypt\<close> at one call (the initialisation vector and the
  timestamp it draws are fixed in the function) and \<^verbatim>\<open>decrypt\<close>, which raises
  \<^verbatim>\<open>InvalidToken\<close> on a token it does not accept.
\<close>

record cipher =
  encrypt :: "bytes \<Rightarrow> bytes"
  decrypt :: "bytes \<Rightarrow> exn + bytes"

text \<open>The container \<^verbatim>\<open>encrypt_model\<close> saves: the \<^verbatim>\<open>package\<close> dictionary.\<close>

record container_metadata =
  original_size :: nat
  hash :: string
  version :: string

record package =
  metadata :: container_metadata
  data :: bytes

record ('img, 'model) env =
  model_path :: string
    \<comment> \<open>\<^verbatim>\<open>MODEL_PATH\<close>\<close>
  model_key_path :: string
    \<comment> \<open>\<^verbatim>\<open>MODEL_KEY_PATH\<close>\<close>
  generate_key :: bytes
    \<comment> \<open>the key \<^verbatim>\<open>Fernet.generate_key()\<close> draws\<close>
  fernet :: "bytes \<Rightarrow> exn + cipher"
    \<comment> \<open>the constructor \<^verbatim>\<open>Fernet(key)\<close>; raises on a key that is not 32 url-safe
        base64-encoded bytes\<close>
  sha256_hexdigest :: "bytes \<Rightarrow> string"
    \<comment> \<open>\<^verbatim>\<open>hashlib.sha256(b).hexdigest()\<close>\<close>
  torch_save :: "package \<Rightarrow> bytes"
  torch_load :: "bytes \<Rightarrow> exn + package"
    \<comment> \<open>raises on anything that does not unpickle to a package dictionary\<close>
  construct :: "bytes \<Rightarrow> exn + 'model"
    \<comment> \<open>\<^verbatim>\<open>load_encrypted_model\<close> after the decryption: deserialise the buffer,
        instantiate the model class, load the state dictionary, move to the device\<close>
  chmod_supported :: bool
    \<comment> \<open>whether \<^verbatim>\<open>os.chmod\<close> succeeds on this platform\<close>
  format_2f :: "real \<Rightarrow> string"
    \<comment> \<open>the format specification \<^verbatim>\<open>.2f\<close>\<close>
  decode_line :: "bytes \<Rightarrow> exn + string"
    \<comment> \<open>the decoder of \<^verbatim>\<open>sys.stdin\<close>, applied to a line read; raises
        \<^verbatim>\<open>UnicodeDecodeError\<close> on bytes that are not valid in its encoding\<close>
  json_loads :: "string \<Rightarrow> exn + json"
    \<comment> \<open>\<^verbatim>\<open>json.loads\<close>\<close>
  py_str :: "json \<Rightarrow> string"
    \<comment> \<open>\<^verbatim>\<open>str(v)\<close> as an f-string prints a value that is not a string\<close>
  exists_other :: "json \<Rightarrow> exn + bool"
    \<comment> \<open>\<^verbatim>\<open>os.path.exists(v)\<close> for a value that is not a string\<close>
  imread :: "json \<Rightarrow> exn + 'img option"
    \<comment> \<open>\<^verbatim>\<open>cv2.imread\<close>: \<^verbatim>\<open>None\<close> when the image cannot be read\<close>
  forward :: "'model \<Rightarrow> 'img \<Rightarrow> exn + real list"
    \<comment> \<open>colour conversion, resize, transform, the model and the softmax: the
        probability vector \<^verbatim>\<open>probabilities\<close>\<close>
  format_1f :: "real \<Rightarrow> string"
    \<comment> \<open>the format specification \<^verbatim>\<open>.1f\<close>\<close>

definition str_of :: "('img, 'model) env \<Rightarrow> json \<Rightarrow> string" where
  "str_of env v = (case v of JStr s \<Rightarrow> s | _ \<Rightarrow> py_str env v)"

definition preprocess_image :: "('img, 'model) env \<Rightarrow> json \<Rightarrow> exn + 'img" where
  "preprocess_image env image_path =
     (case imread env image_path of
        Inl e \<Rightarrow> Inl e
      | Inr None \<Rightarrow> Inl (Exn ''ValueError'' (''Cannot read image: '' @ str_of env image_path))
      | Inr (Some img) \<Rightarrow> Inr img)"

definition explanations :: "(string \<times> string) list" where
  "explanations =
    [(''Healthy'',
      ''Plant appears healthy with no visible issues detected.''),
     (''Pest_Fungal'',
      ''Fungal infection detected. Look for powdery spots, mold, or discoloration. Treatment: Apply fungicide and improve air circulation.''),
     (''Pest_Bacterial'',
      ''Bacterial infection detected. Water-soaked lesions or wilting observed. Treatment: Use copper-based bactericide and remove infected parts.''),
     (''Pest_Insect'',
      ''Insect damage detected. Holes, chewed edges, or insect presence. Treatment: Apply appropriate insecticide or use neem oil.''),
     (''Nutrient_Nitrogen'',
      ''Nitrogen deficiency detected. Yellowing of older leaves, stunted growth. Treatment: Apply nitrogen-rich fertilizer.''),
     (''Nutrient_Potassium'',
      ''Potassium deficiency detected. Leaf edge browning, weak stems. Treatment: Apply potassium fertilizer.''),
     (''Water_Stress'',
      ''Water stress detected. Wilting or dry soil conditions. Treatment: Adjust watering schedule.''),
     (''Not_Plant'',
      ''This is not a plant image. Please upload a clear image of a plant leaf for disease detection.'')]"

definition generate_explanation ::
  "('img, 'model) env \<Rightarrow> string \<Rightarrow> real \<Rightarrow> string \<Rightarrow> string" where
  "generate_explanation env predicted_class confidence conf_level =
     (let explanation =
            (case map_of explanations predicted_class of
               Some t \<Rightarrow> t
             | None \<Rightarrow> ''Plant classified as '' @ predicted_class @ ''.'');
          explanation = explanation @ '' Confidence level: '' @ conf_level @ '' (''
                          @ format_1f env (confidence * 100) @ ''%).''
      in if conf_level = ''Low''
         then explanation @ '' Manual inspection recommended for confirmation.''
         else explanation)"

definition recommendations_table :: "(string \<times> string list) list" where
  "recommendations_table =
    [(''Healthy'',
      [''Continue current care routine'',
       ''Monitor for any changes'',
       ''Maintain proper watering and sunlight'']),
     (''Pest_Fungal'',
      [''Apply fungicide (copper-based or organic)'',
       ''Improve air circulation around plant'',
       ''Remove affected leaves'',
       ''Reduce humidity if possible'']),
     (''Pest_Bacterial'',
      [''Use copper-based bactericide'',
       ''Remove and destroy infected parts'',
       ''Avoid overhead watering'',
       ''Sterilize tools between plants'']),
     (''Pest_Insect'',
      [''Identify specific insect pest'',
       ''Apply appropriate insecticide'',
       ''Use neem oil for organic treatment'',
       ''Introduce beneficial insects'']),
     (''Nutrient_Nitrogen'',
      [''Apply nitrogen-rich fertilizer'',
       ''Use compost or manure'',
       ''Consider foliar feeding'',
       ''Test soil pH'']),
     (''Nutrient_Potassium'',
      [''Apply potassium fertilizer'',
       ''Use wood ash or kelp meal'',
       ''Avoid over-fertilization with nitrogen'',
       ''Monitor leaf symptoms'']),
     (''Water_Stress'',
      [''Adjust watering schedule'',
       ''Check soil moisture regularly'',
       ''Improve drainage if waterlogged'',
       ''Mulch to retain moisture'']),
     (''Not_Plant'',
      [''Please upload a clear image of a plant leaf for disease detection.''])]"

definition get_recommendations :: "string \<Rightarrow> string list" where
  "get_recommendations predicted_class =
     (case map_of recommendations_table predicted_class of
        Some r \<Rightarrow> r
      | None \<Rightarrow> [''Consult agricultural expert''])"

text \<open>One entry of \<^verbatim>\<open>all_probs\<close> and the result dictionary of \<^verbatim>\<open>predict\<close>.\<close>

record class_prob =
  prob_class :: string
  prob_confidence :: real
  prob_confidence_percentage :: real

record result =
  predicted_class :: string
  category :: string
  subtype :: "string option"
  confidence :: real
  confidence_percentage :: real
  confidence_level :: string
  all_probabilities :: "class_prob list"
  explanation :: string
  recommendations :: "string list"
  model_version :: string
  model_name :: string

text \<open>
  The list comprehension of \<^verbatim>\<open>predict\<close>, before it is sorted: one entry per
  configured class, in the order of the class list.
\<close>

definition all_probs :: "real list \<Rightarrow> class_prob list" where
  "all_probs probabilities =
     map (\<lambda>i. \<lparr>prob_class = classes ! i,
               prob_confidence = probabilities ! i,
               prob_confidence_percentage = probabilities ! i * 100\<rparr>)
         [0 ..< length classes]"

text \<open>
  The statements of \<^verbatim>\<open>predict\<close> after the forward pass. The subscripts raise where
  Python and NumPy do: \<^verbatim>\<open>np.argmax\<close> on an empty vector, the class list at an
  index past its end, the vector at an index past its end.
\<close>

definition predict_result :: "('img, 'model) env \<Rightarrow> real list \<Rightarrow> exn + result" where
  "predict_result env probabilities =
     (if probabilities = []
      then Inl (Exn ''ValueError'' ''attempt to get argmax of an empty sequence'')
      else
        let predicted_idx = argmax probabilities in
        if length classes \<le> predicted_idx
        then Inl (Exn ''IndexError'' ''list index out of range'')
        else
          let predicted_class = classes ! predicted_idx;
              confidence = probabilities ! predicted_idx;
              (category, subtype) = parse_class_name predicted_class;
              confidence_level = get_confidence_level confidence
          in
          if length probabilities < length classes
          then Inl (Exn ''IndexError''
                 (''index '' @ str_nat (length probabilities)
                  @ '' is out of bounds for axis 0 with size ''
                  @ str_nat (length probabilities)))
          else
            Inr \<lparr>predicted_class = predicted_class,
                 category = category,
                 subtype = subtype,
                 confidence = confidence,
                 confidence_percentage = confidence * 100,
                 confidence_level = confidence_level,
                 all_probabilities = sort_reverse prob_confidence (all_probs probabilities),
                 explanation = generate_explanation env predicted_class confidence confidence_level,
                 recommendations = get_recommendations predicted_class,
                 model_version = ''v1.0.0'',
                 model_name = ''efficientnet_b2''\<rparr>)"

definition predict :: "('img, 'model) env \<Rightarrow> 'model \<Rightarrow> json \<Rightarrow> exn + result" where
  "predict env model image_path =
     (case preprocess_image env image_path of
        Inl e \<Rightarrow> Inl e
      | Inr img \<Rightarrow>
          (case forward env model img of
             Inl e \<Rightarrow> Inl e
           | Inr probabilities \<Rightarrow> predict_result env probabilities))"

section \<open>Files and the protocol channel\<close>

text \<open>
  Standard output is the protocol channel. A line written there is either plain text
  (\<^verbatim>\<open>print\<close>, or \<^verbatim>\<open>sys.stdout.write\<close> of a literal) or the one-line serialisation
  \<^verbatim>\<open>json.dumps\<close> of a dictionary. The file system is a map from path names to file
  contents, a set of directories and the permission bits set by \<^verbatim>\<open>os.chmod\<close>. What
  depends on the machine rather than on the arguments (access rights, a full disk) is
  left out, and so are the diagnostic writes to standard error.
\<close>

datatype out_line = Text string | Json json

record world =
  files :: "string \<rightharpoonup> bytes"
  dirs :: "string set"
  modes :: "string \<rightharpoonup> nat"
  stdout :: "out_line list"

definition print_line :: "string \<Rightarrow> world \<Rightarrow> world" where
  "print_line s w = w\<lparr>stdout := stdout w @ [Text s]\<rparr>"

definition quote :: "string \<Rightarrow> string" where
  "quote s = CHR 0x27 # s @ [CHR 0x27]"

text \<open>The UTF-8 bytes of the two pictographs the progress messages start with.\<close>

definition check_mark :: string where
  "check_mark = [CHR 0xE2, CHR 0x9C, CHR 0x85]"

definition lock_sign :: string where
  "lock_sign = [CHR 0xF0, CHR 0x9F, CHR 0x94, CHR 0x90]"

definition os_path_exists :: "world \<Rightarrow> string \<Rightarrow> bool" where
  "os_path_exists w p = (p \<in> dom (files w) \<or> p \<in> dirs w)"

text \<open>
  \<^verbatim>\<open>os.path.dirname\<close>: everything up to the last slash, with the trailing slashes
  removed unless the head consists of slashes only.
\<close>

definition os_path_dirname :: "string \<Rightarrow> string" where
  "os_path_dirname p =
     (let head = rev (dropWhile (\<lambda>c. c \<noteq> CHR ''/'') (rev p))
      in if head \<noteq> [] \<and> head \<noteq> replicate (length head) (CHR ''/'')
         then rev (dropWhile (\<lambda>c. c = CHR ''/'') (rev head))
         else head)"

text \<open>
  The directories above a path, nearest first: the head of the path, the head of
  that, and so on while the heads get shorter.
\<close>

function ancestors :: "string \<Rightarrow> string list" where
  "ancestors p =
     (let d = os_path_dirname p
      in if d = [] \<or> length p \<le> length d then [] else d # ancestors d)"
  by pat_completeness auto
termination
  by (relation "measure length") auto

declare ancestors.simps [simp del]

text \<open>
  \<^verbatim>\<open>os.makedirs(name, exist_ok=True)\<close>: \<^verbatim>\<open>mkdir\<close> fails on the empty name, and the
  failure is re-raised because the name is not a directory; a regular file above the
  name or at the name is in the way; an existing directory is accepted. The name and
  the directories above it exist afterwards. Path names are compared as written.
\<close>

definition os_makedirs :: "string \<Rightarrow> world \<Rightarrow> exn + world" where
  "os_makedirs name w =
     (if name = []
      then Inl (Exn ''FileNotFoundError'' (''[Errno 2] No such file or directory: '' @ quote name))
      else if list_ex (\<lambda>a. a \<in> dom (files w)) (ancestors name)
      then Inl (Exn ''NotADirectoryError'' (''[Errno 20] Not a directory: '' @ quote name))
      else if name \<in> dom (files w)
      then Inl (Exn ''FileExistsError'' (''[Errno 17] File exists: '' @ quote name))
      else Inr (w\<lparr>dirs := set (name # ancestors name) \<union> dirs w\<rparr>))"

text \<open>
  \<^verbatim>\<open>open(path, 'rb').read()\<close> and \<^verbatim>\<open>open(path, 'wb').write(b)\<close>. For the write, the
  directory that is to hold the file is taken to exist.
\<close>

definition read_file :: "world \<Rightarrow> string \<Rightarrow> exn + bytes" where
  "read_file w p =
     (case files w p of
        Some b \<Rightarrow> Inr b
      | None \<Rightarrow>
          if p \<in> dirs w
          then Inl (Exn ''IsADirectoryError'' (''[Errno 21] Is a directory: '' @ quote p))
          else Inl (Exn ''FileNotFoundError''
                 (''[Errno 2] No such file or directory: '' @ quote p)))"

definition write_file :: "string \<Rightarrow> bytes \<Rightarrow> world \<Rightarrow> exn + world" where
  "write_file p b w =
     (if p \<in> dirs w
      then Inl (Exn ''IsADirectoryError'' (''[Errno 21] Is a directory: '' @ quote p))
      else Inr (w\<lparr>files := (files w)(p \<mapsto> b)\<rparr>))"

section \<open>Model encryption (src/ai/model\_encryption.py)\<close>

record model_encryption =
  key_path :: string
  key :: bytes
  cipher :: cipher

text \<open>
  \<^verbatim>\<open>_ensure_key_exists\<close>. The permission bits \<^verbatim>\<open>0o600\<close> are 384; a failing
  \<^verbatim>\<open>os.chmod\<close> is swallowed by the bare \<^verbatim>\<open>except\<close>.
\<close>

definition ensure_key_exists ::
  "('img, 'model) env \<Rightarrow> string \<Rightarrow> world \<Rightarrow> (exn + unit) \<times> world" where
  "ensure_key_exists env kp w =
     (case os_makedirs (os_path_dirname kp) w of
        Inl e \<Rightarrow> (Inl e, w)
      | Inr w1 \<Rightarrow>
          if os_path_exists w1 kp then (Inr (), w1)
          else
            (case write_file kp (generate_key env) w1 of
               Inl e \<Rightarrow> (Inl e, w1)
             | Inr w2 \<Rightarrow>
                 let w3 = print_line (check_mark @ '' Generated new encryption key: '' @ kp) w2
                 in (Inr (),
                     if chmod_supported env then w3\<lparr>modes := (modes w3)(kp \<mapsto> 384)\<rparr> else w3)))"

definition load_key :: "string \<Rightarrow> world \<Rightarrow> exn + bytes" where
  "load_key kp w = read_file w kp"

definition ModelEncryption_init ::
  "('img, 'model) env \<Rightarrow> string \<Rightarrow> world \<Rightarrow> (exn + model_encryption) \<times> world" where
  "ModelEncryption_init env kp w =
     (case ensure_key_exists env kp w of
        (Inl e, w1) \<Rightarrow> (Inl e, w1)
      | (Inr _, w1) \<Rightarrow>
          (case load_key kp w1 of
             Inl e \<Rightarrow> (Inl e, w1)
           | Inr k \<Rightarrow>
               (case fernet env k of
                  Inl e \<Rightarrow> (Inl e, w1)
                | Inr c \<Rightarrow> (Inr \<lparr>key_path = kp, key = k, cipher = c\<rparr>, w1))))"

definition mebibytes :: "nat \<Rightarrow> real" where
  "mebibytes n = real n / 1024 / 1024"

definition encrypt_model ::
  "('img, 'model) env \<Rightarrow> model_encryption \<Rightarrow> string \<Rightarrow> string \<Rightarrow> world
     \<Rightarrow> (exn + string) \<times> world" where
  "encrypt_model env self mpath encrypted_path w =
     (let w1 = print_line (lock_sign @ '' Encrypting model: '' @ mpath) w in
      case read_file w1 mpath of
        Inl e \<Rightarrow> (Inl e, w1)
      | Inr model_data \<Rightarrow>
          let md = \<lparr>original_size = length model_data,
                    hash = sha256_hexdigest env model_data,
                    version = ''1.0.0''\<rparr>;
              encrypted_data = encrypt (cipher self) model_data;
              pkg = \<lparr>metadata = md, data = encrypted_data\<rparr>
          in
          (case write_file encrypted_path (torch_save env pkg) w1 of
             Inl e \<Rightarrow> (Inl e, w1)
           | Inr w2 \<Rightarrow>
               (Inr encrypted_path,
                print_line (''   Hash: '' @ take 16 (hash md) @ ''...'')
                 (print_line (''   Encrypted size: ''
                      @ format_2f env (mebibytes (length encrypted_data)) @ '' MB'')
                   (print_line (''   Original size: ''
                        @ format_2f env (mebibytes (length model_data)) @ '' MB'')
                     (print_line (check_mark @ '' Model encrypted successfully'') w2))))))"

text \<open>The package \<^verbatim>\<open>encrypt_model\<close> builds for the plaintext \<^verbatim>\<open>model_data\<close>.\<close>

definition container :: "('img, 'model) env \<Rightarrow> model_encryption \<Rightarrow> bytes \<Rightarrow> package" where
  "container env self model_data =
     \<lparr>metadata = \<lparr>original_size = length model_data,
                   hash = sha256_hexdigest env model_data,
                   version = ''1.0.0''\<rparr>,
      data = encrypt (cipher self) model_data\<rparr>"

definition integrity_error :: exn where
  "integrity_error = Exn ''ValueError'' ''Model integrity check failed - possible tampering''"

definition decrypt_model ::
  "('img, 'model) env \<Rightarrow> model_encryption \<Rightarrow> string \<Rightarrow> world \<Rightarrow> exn + bytes" where
  "decrypt_model env self encrypted_path w =
     (case read_file w encrypted_path of
        Inl e \<Rightarrow> Inl e
      | Inr blob \<Rightarrow>
          (case torch_load env blob of
             Inl e \<Rightarrow> Inl e
           | Inr pkg \<Rightarrow>
               (case decrypt (cipher self) (data pkg) of
                  Inl e \<Rightarrow> Inl e
                | Inr decrypted_data \<Rightarrow>
                    let data_hash = sha256_hexdigest env decrypted_data in
                    if data_hash \<noteq> hash (metadata pkg)
                    then Inl integrity_error
                    else Inr decrypted_data)))"

section \<open>Secure loader (src/backend/ai/model\_loader.py)\<close>

record secure_model_loader =
  encryptor :: model_encryption

definition SecureModelLoader_init ::
  "('img, 'model) env \<Rightarrow> string \<Rightarrow> world \<Rightarrow> (exn + secure_model_loader) \<times> world" where
  "SecureModelLoader_init env kp w =
     (case ModelEncryption_init env kp w of
        (Inl e, w1) \<Rightarrow> (Inl e, w1)
      | (Inr me, w1) \<Rightarrow> (Inr \<lparr>encryptor = me\<rparr>, w1))"

definition load_encrypted_model ::
  "('img, 'model) env \<Rightarrow> secure_model_loader \<Rightarrow> string \<Rightarrow> world \<Rightarrow> exn + 'model" where
  "load_encrypted_model env self encrypted_path w =
     (case decrypt_model env (encryptor self) encrypted_path w of
        Inl e \<Rightarrow> Inl e
      | Inr decrypted_data \<Rightarrow> construct env decrypted_data)"

section \<open>Worker (src/ai/inference\_server.py)\<close>

definition load_model_securely ::
  "('img, 'model) env \<Rightarrow> world \<Rightarrow> (exn + 'model) \<times> world" where
  "load_model_securely env w =
     (if \<not> os_path_exists w (model_path env)
      then (Inl (Exn ''FileNotFoundError''
                  (''Encrypted model not found: '' @ model_path env)), w)
      else if \<not> os_path_exists w (model_key_path env)
      then (Inl (Exn ''FileNotFoundError''
                  (''Encryption key not found: '' @ model_key_path env)), w)
      else
        (case SecureModelLoader_init env (model_key_path env) w of
           (Inl e, w1) \<Rightarrow> (Inl e, w1)
         | (Inr loader, w1) \<Rightarrow> (load_encrypted_model env loader (model_path env) w1, w1)))"

text \<open>
  \<^verbatim>\<open>str.strip()\<close> removes the white space at both ends. A character of a decoded
  string is a code point below 256; the white-space characters among these are the
  codes 9 to 13, 28 to 32, 133 and 160.
\<close>

definition is_space :: "char \<Rightarrow> bool" where
  "is_space c =
     (let n = (of_char c :: nat)
      in (9 \<le> n \<and> n \<le> 13) \<or> (28 \<le> n \<and> n \<le> 32) \<or> n = 133 \<or> n = 160)"

definition strip :: "string \<Rightarrow> string" where
  "strip s = rev (dropWhile is_space (rev (dropWhile is_space s)))"

text \<open>
  \<^verbatim>\<open>request.get('imagePath')\<close>: the value, or \<^verbatim>\<open>None\<close> for a missing key, when the
  decoded request is a dictionary; any other value has no attribute \<^verbatim>\<open>get\<close>. The
  items of a decoded dictionary have distinct keys, so the first match is the only one.
\<close>

definition type_name :: "json \<Rightarrow> string" where
  "type_name v =
     (case v of
        JNull \<Rightarrow> ''NoneType''
      | JBool _ \<Rightarrow> ''bool''
      | JInt _ \<Rightarrow> ''int''
      | JFloat _ \<Rightarrow> ''float''
      | JSpecial _ \<Rightarrow> ''float''
      | JStr _ \<Rightarrow> ''str''
      | JArr _ \<Rightarrow> ''list''
      | JObj _ \<Rightarrow> ''dict'')"

definition dict_get :: "json \<Rightarrow> string \<Rightarrow> exn + json" where
  "dict_get v k =
     (case v of
        JObj items \<Rightarrow> Inr (case map_of items k of None \<Rightarrow> JNull | Some x \<Rightarrow> x)
      | _ \<Rightarrow> Inl (Exn ''AttributeError''
               (quote (type_name v) @ '' object has no attribute '' @ quote ''get'')))"

text \<open>Truth value of a Python object, as \<^verbatim>\<open>if not image_path\<close> tests it.\<close>

definition truthy :: "json \<Rightarrow> bool" where
  "truthy v =
     (case v of
        JNull \<Rightarrow> False
      | JBool b \<Rightarrow> b
      | JInt i \<Rightarrow> i \<noteq> 0
      | JFloat x \<Rightarrow> x \<noteq> 0
      | JSpecial _ \<Rightarrow> True
      | JStr t \<Rightarrow> t \<noteq> []
      | JArr xs \<Rightarrow> xs \<noteq> []
      | JObj items \<Rightarrow> items \<noteq> [])"

definition exists_value :: "('img, 'model) env \<Rightarrow> world \<Rightarrow> json \<Rightarrow> exn + bool" where
  "exists_value env w v =
     (case v of JStr p \<Rightarrow> Inr (os_path_exists w p) | _ \<Rightarrow> exists_other env v)"

text \<open>The \<^verbatim>\<open>try\<close> block of the request loop, up to the result of \<^verbatim>\<open>predict\<close>.\<close>

definition request_result ::
  "('img, 'model) env \<Rightarrow> world \<Rightarrow> 'model \<Rightarrow> string \<Rightarrow> exn + result" where
  "request_result env w model line =
     (case json_loads env (strip line) of
        Inl e \<Rightarrow> Inl e
      | Inr request \<Rightarrow>
          (case dict_get request ''imagePath'' of
             Inl e \<Rightarrow> Inl e
           | Inr image_path \<Rightarrow>
               if \<not> truthy image_path
               then Inl (Exn ''ValueError'' ''No imagePath provided'')
               else
                 (case exists_value env w image_path of
                    Inl e \<Rightarrow> Inl e
                  | Inr found \<Rightarrow>
                      if \<not> found
                      then Inl (Exn ''FileNotFoundError''
                             (''Image not found: '' @ str_of env image_path))
                      else predict env model image_path)))"

definition json_of_class_prob :: "class_prob \<Rightarrow> json" where
  "json_of_class_prob e =
     JObj [(''class'', JStr (prob_class e)),
           (''confidence'', JFloat (prob_confidence e)),
           (''confidence_percentage'', JFloat (prob_confidence_percentage e))]"

definition json_of_result :: "result \<Rightarrow> json" where
  "json_of_result r =
     JObj [(''predicted_class'', JStr (predicted_class r)),
           (''category'', JStr (category r)),
           (''subtype'', (case subtype r of None \<Rightarrow> JNull | Some t \<Rightarrow> JStr t)),
           (''confidence'', JFloat (confidence r)),
           (''confidence_percentage'', JFloat (confidence_percentage r)),
           (''confidence_level'', JStr (confidence_level r)),
           (''all_probabilities'', JArr (map json_of_class_prob (all_probabilities r))),
           (''explanation'', JStr (explanation r)),
           (''recommendations'', JArr (map JStr (recommendations r))),
           (''model_version'', JStr (model_version r)),
           (''model_name'', JStr (model_name r))]"

definition success_response :: "result \<Rightarrow> json" where
  "success_response r = JObj [(''success'', JBool True), (''data'', json_of_result r)]"

definition error_response :: "exn \<Rightarrow> json" where
  "error_response e =
     JObj [(''success'', JBool False),
           (''error'', JStr (exn_msg e)),
           (''error_type'', JStr (exn_type e))]"

text \<open>
  One pass through the loop body: the response dictionary that is serialised to
  standard output, from the \<^verbatim>\<open>try\<close> block or from the handler of
  \<^verbatim>\<open>except Exception\<close>.
\<close>

definition handle_request ::
  "('img, 'model) env \<Rightarrow> world \<Rightarrow> 'model \<Rightarrow> string \<Rightarrow> json" where
  "handle_request env w model line =
     (case request_result env w model line of
        Inr r \<Rightarrow> success_response r
      | Inl e \<Rightarrow> error_response e)"

subsection \<open>The request loop and signals\<close>

text \<open>
  Standard input delivers the request lines as bytes. \<^verbatim>\<open>for line in sys.stdin\<close> reads
  the next line and decodes it; this happens in the loop header, outside the
  \<^verbatim>\<open>try\<close> block, so a \<^verbatim>\<open>UnicodeDecodeError\<close> of the decoder is not caught by
  \<^verbatim>\<open>except Exception\<close>: it leaves the loop, \<^verbatim>\<open>run_server\<close> and \<^verbatim>\<open>main\<close>.

  \<^verbatim>\<open>main\<close> installs \<^verbatim>\<open>signal_handler\<close> for SIGINT and SIGTERM. The interpreter runs
  the handler in the main thread between two instructions of whatever is executing;
  the handler calls \<^verbatim>\<open>sys.exit(0)\<close>, that is, it raises \<^verbatim>\<open>SystemExit(0)\<close> at that
  point. \<^verbatim>\<open>SystemExit\<close> is not an \<^verbatim>\<open>Exception\<close>, so the handler of the request
  loop does not catch it: it leaves the loop, \<^verbatim>\<open>run_server\<close> and \<^verbatim>\<open>main\<close>, and the
  process exits with the code it carries.

  A schedule says where a signal arrives in the request loop, if one does: in which
  iteration (counted from 0) and at which point of it. The one effect of an iteration
  on the protocol channel is the write of its response line, so three points are told
  apart. A signal during the start-up, before the loop, is not part of a schedule.
\<close>

datatype signal_point =
    BeforeRead
      \<comment> \<open>the loop is waiting for, or about to read, the line of this iteration\<close>
  | BeforeResponse
      \<comment> \<open>the line is read and its response is not written yet: the signal arrives
          during \<^verbatim>\<open>json.loads\<close>, the checks, \<^verbatim>\<open>preprocess_image\<close>, the forward
          pass, or the exception handler\<close>
  | AfterResponse
      \<comment> \<open>the response line is written and the next read has not begun\<close>

datatype ending = Returned | SystemExit int

definition signal_handler :: ending where
  "signal_handler = SystemExit 0"

fun serve ::
  "('img, 'model) env \<Rightarrow> 'model \<Rightarrow> (nat \<times> signal_point) option \<Rightarrow> nat \<Rightarrow> bytes list
     \<Rightarrow> world \<Rightarrow> (exn + ending) \<times> world" where
  "serve env model sched i [] w =
     (if sched = Some (i, BeforeRead) then (Inr signal_handler, w) else (Inr Returned, w))"
| "serve env model sched i (raw # rest) w =
     (if sched = Some (i, BeforeRead) then (Inr signal_handler, w)
      else
        (case decode_line env raw of
           Inl e \<Rightarrow> (Inl e, w)
         | Inr line \<Rightarrow>
             if sched = Some (i, BeforeResponse) then (Inr signal_handler, w)
             else
               let w1 = w\<lparr>stdout := stdout w @ [Json (handle_request env w model line)]\<rparr> in
               if sched = Some (i, AfterResponse) then (Inr signal_handler, w1)
               else serve env model sched (Suc i) rest w1))"

text \<open>
  How many of \<open>n\<close> pending request lines get a response when the loop stands at
  iteration \<open>i\<close>: all of them without a signal, or with one that is due in an
  iteration already past; otherwise those of the iterations before the signal, and the
  one of the signal's iteration only when the signal comes after its response.
\<close>

definition answered_from :: "(nat \<times> signal_point) option \<Rightarrow> nat \<Rightarrow> nat \<Rightarrow> nat" where
  "answered_from sched i n =
     (case sched of
        None \<Rightarrow> n
      | Some (j, pt) \<Rightarrow>
          if j < i then n
          else min (j - i + (if pt = AfterResponse then 1 else 0)) n)"

definition run_server ::
  "('img, 'model) env \<Rightarrow> (nat \<times> signal_point) option \<Rightarrow> bytes list \<Rightarrow> world
     \<Rightarrow> (exn + ending) \<times> world" where
  "run_server env sched stdin w =
     (case load_model_securely env w of
        (Inl e, w1) \<Rightarrow> (Inl e, w1)
      | (Inr model, w1) \<Rightarrow>
          serve env model sched 0 stdin (w1\<lparr>stdout := stdout w1 @ [Text ''READY'']\<rparr>))"

text \<open>
  The process as its parent sees it: the lines on standard output and the exit
  status. An exception that leaves \<^verbatim>\<open>main\<close> ends the interpreter with status 1.
\<close>

record proc =
  proc_stdout :: "out_line list"
  exit_code :: int

definition single_shot ::
  "('img, 'model) env \<Rightarrow> string list \<Rightarrow> world \<Rightarrow> (exn + result) \<times> world" where
  "single_shot env argv w =
     (if length argv < 2 then (Inl (Exn ''ValueError'' ''No image path provided''), w)
      else
        let image_path = argv ! 1 in
        if \<not> os_path_exists w image_path
        then (Inl (Exn ''FileNotFoundError'' (''Image not found: '' @ image_path)), w)
        else
          (case load_model_securely env w of
             (Inl e, w1) \<Rightarrow> (Inl e, w1)
           | (Inr model, w1) \<Rightarrow> (predict env model (JStr image_path), w1)))"

definition main ::
  "('img, 'model) env \<Rightarrow> string list \<Rightarrow> (nat \<times> signal_point) option \<Rightarrow> bytes list
     \<Rightarrow> world \<Rightarrow> proc" where
  "main env argv sched stdin w =
     (if length argv > 1 \<and> argv ! 1 = ''--server-mode''
      then
        (case run_server env sched stdin w of
           (Inl e, w1) \<Rightarrow> \<lparr>proc_stdout = stdout w1, exit_code = 1\<rparr>
         | (Inr Returned, w1) \<Rightarrow> \<lparr>proc_stdout = stdout w1, exit_code = 0\<rparr>
         | (Inr (SystemExit c), w1) \<Rightarrow> \<lparr>proc_stdout = stdout w1, exit_code = c\<rparr>)
      else
        (case single_shot env argv w of
           (Inr r, w1) \<Rightarrow>
             \<lparr>proc_stdout = stdout w1 @ [Json (success_response r)], exit_code = 0\<rparr>
         | (Inl e, w1) \<Rightarrow>
             \<lparr>proc_stdout = stdout w1 @ [Json (error_response e)], exit_code = 1\<rparr>))"

section \<open>A small instance\<close>

text \<open>
  Concrete stand-ins for the external parts, on which the definitions above can be
  run: a cipher that tags and reverses, a digest that tags, a container
  serialisation with the size in unary, a line decoder that refuses the byte 255, a
  JSON decoder that knows three request lines, and
  a forward pass that returns one fixed probability vector.
\<close>

definition example_cipher :: cipher where
  "example_cipher =
     \<lparr>encrypt = (\<lambda>m. ''tok:'' @ rev m),
      decrypt = (\<lambda>t. if prefix ''tok:'' t then Inr (rev (drop 4 t))
                     else Inl (Exn ''InvalidToken'' []))\<rparr>"

definition example_save :: "package \<Rightarrow> bytes" where
  "example_save p =
     replicate (original_size (metadata p)) (CHR ''#'') @ ''|'' @ hash (metadata p)
       @ ''|'' @ data p"

definition example_load :: "bytes \<Rightarrow> exn + package" where
  "example_load b =
     (let n = length (takeWhile (\<lambda>c. c = CHR ''#'') b);
          r = drop (Suc n) b;
          h = takeWhile (\<lambda>c. c \<noteq> CHR ''|'') r
      in if n < length b
         then Inr \<lparr>metadata = \<lparr>original_size = n, hash = h, version = ''1.0.0''\<rparr>,
                   data = drop (Suc (length h)) r\<rparr>
         else Inl (Exn ''UnpicklingError'' ''invalid load key''))"

definition example_loads :: "string \<Rightarrow> exn + json" where
  "example_loads s =
     (if s = ''leaf'' then Inr (JObj [(''imagePath'', JStr ''leaf.jpg'')])
      else if s = ''gone'' then Inr (JObj [(''imagePath'', JStr ''gone.jpg'')])
      else if s = ''{}'' then Inr (JObj [])
      else Inl (Exn ''JSONDecodeError'' ''Expecting value: line 1 column 1 (char 0)''))"

definition example_decode :: "bytes \<Rightarrow> exn + string" where
  "example_decode b =
     (if CHR 0xFF \<in> set b
      then Inl (Exn ''UnicodeDecodeError''
             (quote ''utf-8'' @ '' codec can't decode byte 0xff: invalid start byte''))
      else Inr b)"

definition example_probabilities :: "real list" where
  "example_probabilities = [0.05, 0.1, 0.02, 0.6, 0.1, 0.03, 0.05, 0.05]"

definition example_env :: "(string, bytes) env" where
  "example_env =
     \<lparr>model_path = ''saved_models/best_model.encrypted'',
      model_key_path = ''secrets/model.key'',
      generate_key = ''k2'',
      fernet = (\<lambda>k. if length k = 2 then Inr example_cipher
                    else Inl (Exn ''ValueError''
                           ''Fernet key must be 32 url-safe base64-encoded bytes.'')),
      sha256_hexdigest = (\<lambda>b. ''h:'' @ b),
      torch_save = example_save,
      torch_load = example_load,
      construct = Inr,
      chmod_supported = True,
      format_2f = (\<lambda>x. ''0.00''),
      decode_line = example_decode,
      json_loads = example_loads,
      py_str = (\<lambda>v. ''?''),
      exists_other = (\<lambda>v. Inl (Exn ''TypeError''
                      ''stat: path should be string, bytes, os.PathLike or integer'')),
      imread = (\<lambda>v. case v of
                       JStr p \<Rightarrow> Inr (if p = ''leaf.jpg'' then Some ''pixels'' else None)
                     | _ \<Rightarrow> Inl (Exn ''TypeError'' ''bad argument'')),
      forward = (\<lambda>model img. Inr example_probabilities),
      format_1f = (\<lambda>x. ''60.0'')\<rparr>"

definition example_self :: model_encryption where
  "example_self = \<lparr>key_path = ''secrets/model.key'', key = ''k1'', cipher = example_cipher\<rparr>"

definition example_world :: world where
  "example_world =
     \<lparr>files = [''secrets/model.key'' \<mapsto> ''k1'',
               ''saved_models/best_model.encrypted'' \<mapsto> ''###|h:abc|tok:cba'',
               ''saved_models/best_model.pth'' \<mapsto> ''abc'',
               ''leaf.jpg'' \<mapsto> ''pixels''],
      dirs = {''secrets'', ''saved_models''},
      modes = Map.empty,
      stdout = []\<rparr>"

definition server_argv :: "string list" where
  "server_argv = [''inference_server.py'', ''--server-mode'']"

text \<open>
  The same world with one bit of the stored ciphertext flipped and with one bit of
  the stored hash flipped.
\<close>

definition flipped_ciphertext_world :: world where
  "flipped_ciphertext_world =
     example_world\<lparr>files := (files example_world)
       (''saved_models/best_model.encrypted'' \<mapsto> ''###|h:abc|Tok:cba'')\<rparr>"

definition flipped_hash_world :: world where
  "flipped_hash_world =
     example_world\<lparr>files := (files example_world)
       (''saved_models/best_model.encrypted'' \<mapsto> ''###|h:abC|tok:cba'')\<rparr>"

text \<open>
  A cipher whose tokens end in a character that carries no data, and whose
  \<^verbatim>\<open>decrypt\<close> does not look at it: the token format of \<^verbatim>\<open>Fernet\<close> is url-safe
  base64, read with \<^verbatim>\<open>base64.urlsafe_b64decode\<close>, which ignores the bits of the last
  character that lie beyond the last whole byte. The stored token of
  \<open>slack_world\<close> differs from the token this cipher issues for \<^verbatim>\<open>abc\<close> in one
  bit of that character.
\<close>

definition slack_cipher :: cipher where
  "slack_cipher =
     \<lparr>encrypt = (\<lambda>m. ''tok:'' @ rev m @ ''A''),
      decrypt = (\<lambda>t. if prefix ''tok:'' t \<and> 4 < length t
                     then Inr (rev (butlast (drop 4 t)))
                     else Inl (Exn ''InvalidToken'' []))\<rparr>"

definition slack_self :: model_encryption where
  "slack_self = \<lparr>key_path = ''secrets/model.key'', key = ''k1'', cipher = slack_cipher\<rparr>"

definition slack_world :: world where
  "slack_world =
     example_world\<lparr>files := (files example_world)
       (''saved_models/best_model.encrypted'' \<mapsto> ''###|h:abc|tok:cbaC'')\<rparr>"

text \<open>The example world with the key file missing.\<close>

definition keyless_world :: world where
  "keyless_world =
     example_world\<lparr>files := (files example_world)(''secrets/model.key'' := None)\<rparr>"

section \<open>Properties\<close>

subsection \<open>Helper lemmas\<close>

lemma argmax_from_bound: "best < i \<Longrightarrow> argmax_from xs i best v < i + length xs"
proof (induction xs arbitrary: i best v)
  case Nil
  then show ?case by simp
next
  case (Cons a xs)
  have "argmax_from xs (Suc i) i a < Suc i + length xs"
    by (rule Cons.IH) simp
  moreover have "argmax_from xs (Suc i) best v < Suc i + length xs"
    by (rule Cons.IH) (use Cons.prems in simp)
  ultimately show ?case by simp
qed

lemma argmax_bound: "xs \<noteq> [] \<Longrightarrow> argmax xs < length xs"
  using argmax_from_bound [of 0 1] by (cases xs) (auto simp: argmax_def)

lemma sort_reverse_sorted: "sorted_wrt (\<lambda>a b. f a \<ge> f b) (sort_reverse f xs)"
proof -
  have "sorted (map f (sort_key f (rev xs)))" by (rule sorted_sort_key)
  then have "sorted_wrt (\<lambda>a b. f a \<le> f b) (sort_key f (rev xs))"
    by (simp add: sorted_map)
  then show ?thesis
    by (simp add: sort_reverse_def sorted_wrt_rev)
qed

lemma sort_reverse_mset: "mset (sort_reverse f xs) = mset xs"
  by (simp add: sort_reverse_def)

lemma sort_reverse_stable:
  "filter (\<lambda>e. f e = v) (sort_reverse f xs) = filter (\<lambda>e. f e = v) xs"
  by (simp add: sort_reverse_def rev_filter [symmetric] sort_key_stable)

lemma all_probs_classes: "map prob_class (all_probs ps) = classes"
  by (simp add: all_probs_def comp_def map_nth)

lemma distinct_classes: "distinct classes"
  by (simp add: classes_def)

lemma all_probs_pairs:
  assumes "length ps = length classes"
  shows "map (\<lambda>e. (prob_class e, prob_confidence e)) (all_probs ps) = zip classes ps"
proof (rule nth_equalityI)
  show "length (map (\<lambda>e. (prob_class e, prob_confidence e)) (all_probs ps))
          = length (zip classes ps)"
    using assms by (simp add: all_probs_def)
next
  fix i
  assume "i < length (map (\<lambda>e. (prob_class e, prob_confidence e)) (all_probs ps))"
  then have i: "i < length classes"
    by (simp add: all_probs_def)
  then show "map (\<lambda>e. (prob_class e, prob_confidence e)) (all_probs ps) ! i
               = zip classes ps ! i"
    using assms by (simp add: all_probs_def)
qed

lemma encrypt_model_package:
  assumes "read_file w mpath = Inr m" and "encrypted_path \<notin> dirs w"
  shows "\<exists>w'. encrypt_model env self mpath encrypted_path w = (Inr encrypted_path, w')
           \<and> files w' = (files w)(encrypted_path \<mapsto> torch_save env (container env self m))
           \<and> dirs w' = dirs w"
  using assms
  by (simp add: encrypt_model_def Let_def read_file_def write_file_def print_line_def
      container_def split: option.splits if_splits)

text \<open>
  \<open>decrypt_model\<close> returns bytes only when the cipher accepted the stored
  ciphertext and the digest of the decrypted bytes is the stored hash.
\<close>

lemma decrypt_model_checked:
  assumes "read_file w path = Inr blob" and "torch_load env blob = Inr pkg"
    and "decrypt_model env self path w = Inr p"
  shows "decrypt (cipher self) (data pkg) = Inr p
         \<and> sha256_hexdigest env p = hash (metadata pkg)"
  using assms
  by (auto simp: decrypt_model_def Let_def split: sum.splits if_splits)

text \<open>
  Where the key path has a directory part that can be made, a missing key is generated,
  stored with the owner-only permission bits, announced on standard output and used.
\<close>

lemma key_generated:
  assumes "\<not> os_path_exists w kp"
    and "os_path_dirname kp \<noteq> []"
    and "kp \<notin> set (os_path_dirname kp # ancestors (os_path_dirname kp))"
    and "os_path_dirname kp \<notin> dom (files w)"
    and "\<not> list_ex (\<lambda>a. a \<in> dom (files w)) (ancestors (os_path_dirname kp))"
    and "fernet env (generate_key env) = Inr c"
  shows "\<exists>w'. SecureModelLoader_init env kp w
            = (Inr \<lparr>encryptor = \<lparr>key_path = kp, key = generate_key env, cipher = c\<rparr>\<rparr>, w')
          \<and> files w' = (files w)(kp \<mapsto> generate_key env)
          \<and> stdout w' = stdout w @ [Text (check_mark @ '' Generated new encryption key: '' @ kp)]
          \<and> (chmod_supported env \<longrightarrow> modes w' kp = Some 384)"
proof -
  let ?w1 = "w\<lparr>dirs := set (os_path_dirname kp # ancestors (os_path_dirname kp)) \<union> dirs w\<rparr>"
  have m: "os_makedirs (os_path_dirname kp) w = Inr ?w1"
    using assms(2,4,5) by (simp add: os_makedirs_def)
  have n: "\<not> os_path_exists ?w1 kp"
    using assms(1,3) by (auto simp: os_path_exists_def)
  have d: "kp \<notin> dirs ?w1"
    using n by (simp add: os_path_exists_def)
  show ?thesis
    using m n d assms(6)
    by (simp add: SecureModelLoader_init_def ModelEncryption_init_def ensure_key_exists_def
        write_file_def print_line_def load_key_def read_file_def Let_def)
qed

lemma os_path_exists_stdout:
  "os_path_exists (w\<lparr>stdout := s\<rparr>) p = os_path_exists w p"
  by (simp add: os_path_exists_def)

lemma exists_value_stdout:
  "exists_value env (w\<lparr>stdout := s\<rparr>) v = exists_value env w v"
  by (cases v) (simp_all add: exists_value_def os_path_exists_stdout)

lemma request_result_stdout:
  "request_result env (w\<lparr>stdout := s\<rparr>) model line = request_result env w model line"
  unfolding request_result_def exists_value_stdout ..

lemma handle_request_stdout:
  "handle_request env (w\<lparr>stdout := s\<rparr>) model line = handle_request env w model line"
  by (simp add: handle_request_def request_result_stdout)

lemma answered_from_Suc:
  assumes "sched \<noteq> Some (i, BeforeRead)" "sched \<noteq> Some (i, BeforeResponse)"
    "sched \<noteq> Some (i, AfterResponse)"
  shows "answered_from sched i (Suc n) = Suc (answered_from sched (Suc i) n)"
proof (cases sched)
  case None
  then show ?thesis by (simp add: answered_from_def)
next
  case (Some a)
  obtain j pt where a: "a = (j, pt)" by (cases a)
  have "j \<noteq> i" using assms Some a by (cases pt) auto
  then show ?thesis using Some a
    by (cases "j < i") (auto simp: answered_from_def min_def Suc_diff_le)
qed

text \<open>
  When every request line decodes, the loop writes the responses of a prefix of the
  request lines, in order, and ends by returning or by \<^verbatim>\<open>SystemExit(0)\<close>.
\<close>

lemma serve_trace:
  "map (decode_line env) raws = map Inr lines \<Longrightarrow>
   serve env model sched i raws w = (r, w') \<Longrightarrow>
     stdout w' = stdout w @ map (\<lambda>l. Json (handle_request env w model l))
                              (take (answered_from sched i (length lines)) lines)
     \<and> (r = Inr Returned \<or> r = Inr (SystemExit 0))"
proof (induction raws arbitrary: lines i w)
  case Nil
  then show ?case by (auto simp: signal_handler_def split: if_splits)
next
  case (Cons raw rest)
  obtain l ls where lines: "lines = l # ls" and dec: "decode_line env raw = Inr l"
    and more: "map (decode_line env) rest = map Inr ls"
    using Cons.prems(1) by (cases lines) auto
  let ?w1 = "w\<lparr>stdout := stdout w @ [Json (handle_request env w model l)]\<rparr>"
  consider (before) "sched = Some (i, BeforeRead) \<or> sched = Some (i, BeforeResponse)"
    | (after) "sched = Some (i, AfterResponse)"
    | (none) "sched \<noteq> Some (i, BeforeRead)" "sched \<noteq> Some (i, BeforeResponse)"
        "sched \<noteq> Some (i, AfterResponse)"
    by blast
  then show ?case
  proof cases
    case before
    then have "r = Inr (SystemExit 0)" "w' = w" "answered_from sched i (length lines) = 0"
      using Cons.prems(2) dec by (auto simp: signal_handler_def answered_from_def)
    then show ?thesis by simp
  next
    case after
    then have "r = Inr (SystemExit 0)" "w' = ?w1" "answered_from sched i (length lines) = 1"
      using Cons.prems(2) dec lines
      by (simp_all add: signal_handler_def answered_from_def Let_def)
    then show ?thesis using lines by simp
  next
    case none
    then have rec: "serve env model sched (Suc i) rest ?w1 = (r, w')"
      using Cons.prems(2) dec by (simp add: Let_def)
    have n: "answered_from sched i (Suc (length ls))
               = Suc (answered_from sched (Suc i) (length ls))"
      by (rule answered_from_Suc [OF none])
    show ?thesis
      using Cons.IH [OF more rec] lines by (simp add: n handle_request_stdout)
  qed
qed

text \<open>
  Whatever the request lines and the schedule, what the loop writes is the responses
  of the first request lines, each decoded, in order.
\<close>

lemma serve_prefix:
  "serve env model sched i raws w = (r, w') \<Longrightarrow>
     \<exists>lines. map (decode_line env) (take (length lines) raws) = map Inr lines
        \<and> stdout w' = stdout w @ map (\<lambda>l. Json (handle_request env w model l)) lines"
proof (induction raws arbitrary: i w)
  case Nil
  then have "stdout w' = stdout w" by (auto split: if_splits)
  then show ?case by simp
next
  case (Cons raw rest)
  show ?case
  proof (cases "decode_line env raw")
    case (Inl e)
    then have "stdout w' = stdout w"
      using Cons.prems by (auto split: if_splits)
    then show ?thesis by simp
  next
    case (Inr l)
    let ?w1 = "w\<lparr>stdout := stdout w @ [Json (handle_request env w model l)]\<rparr>"
    consider (before) "sched = Some (i, BeforeRead) \<or> sched = Some (i, BeforeResponse)"
      | (after) "sched = Some (i, AfterResponse)"
      | (none) "sched \<noteq> Some (i, BeforeRead)" "sched \<noteq> Some (i, BeforeResponse)"
          "sched \<noteq> Some (i, AfterResponse)"
      by blast
    then show ?thesis
    proof cases
      case before
      then have "stdout w' = stdout w"
        using Cons.prems Inr by auto
      then show ?thesis by simp
    next
      case after
      then have "w' = ?w1"
        using Cons.prems Inr by (simp add: Let_def)
      then have "map (decode_line env) (take (length [l]) (raw # rest)) = map Inr [l]
          \<and> stdout w' = stdout w @ map (\<lambda>l. Json (handle_request env w model l)) [l]"
        using Inr by simp
      then show ?thesis by blast
    next
      case none
      then have rec: "serve env model sched (Suc i) rest ?w1 = (r, w')"
        using Cons.prems Inr by (simp add: Let_def)
      obtain ls where ls: "map (decode_line env) (take (length ls) rest) = map Inr ls"
        "stdout w' = stdout ?w1 @ map (\<lambda>l. Json (handle_request env ?w1 model l)) ls"
        using Cons.IH [OF rec] by blast
      have "map (decode_line env) (take (length (l # ls)) (raw # rest)) = map Inr (l # ls)
          \<and> stdout w' = stdout w @ map (\<lambda>l. Json (handle_request env w model l)) (l # ls)"
        using ls Inr by (simp add: handle_request_stdout)
      then show ?thesis by blast
    qed
  qed
qed

text \<open>Loading the model writes nothing to standard output.\<close>

lemma ensure_key_exists_stdout:
  assumes "os_path_exists w kp" and "ensure_key_exists env kp w = (r, w1)"
  shows "stdout w1 = stdout w"
proof (cases "os_makedirs (os_path_dirname kp) w")
  case (Inl e)
  then show ?thesis using assms(2) by (simp add: ensure_key_exists_def)
next
  case (Inr w0)
  then have w0: "w0 = w\<lparr>dirs := set (os_path_dirname kp # ancestors (os_path_dirname kp))
                                 \<union> dirs w\<rparr>"
    by (simp add: os_makedirs_def split: if_splits)
  have ex: "os_path_exists w0 kp"
    using assms(1) w0 by (auto simp: os_path_exists_def)
  have out: "stdout w0 = stdout w"
    using w0 by simp
  have "w1 = w0"
    using assms(2) Inr ex by (simp add: ensure_key_exists_def)
  then show ?thesis using out by simp
qed

lemma ModelEncryption_init_stdout:
  assumes "os_path_exists w kp" and "ModelEncryption_init env kp w = (r, w1)"
  shows "stdout w1 = stdout w"
proof -
  obtain r0 w0 where e: "ensure_key_exists env kp w = (r0, w0)"
    by (cases "ensure_key_exists env kp w")
  have "w1 = w0"
    using assms(2) e
    by (cases r0) (auto simp: ModelEncryption_init_def split: sum.splits)
  then show ?thesis
    using ensure_key_exists_stdout [OF assms(1) e] by simp
qed

lemma load_model_securely_stdout:
  assumes "load_model_securely env w = (r, w1)"
  shows "stdout w1 = stdout w"
proof (cases "os_path_exists w (model_path env) \<and> os_path_exists w (model_key_path env)")
  case False
  then show ?thesis using assms by (auto simp: load_model_securely_def split: if_splits)
next
  case True
  obtain r0 w0 where m: "ModelEncryption_init env (model_key_path env) w = (r0, w0)"
    by (cases "ModelEncryption_init env (model_key_path env) w")
  have "w1 = w0"
    using assms True m
    by (cases r0) (auto simp: load_model_securely_def SecureModelLoader_init_def)
  then show ?thesis
    using ModelEncryption_init_stdout [OF _ m] True by simp
qed

lemma main_server_mode:
  assumes "load_model_securely env w = (Inr model, w1)" and "stdout w = []"
    and "1 < length argv" and "argv ! 1 = ''--server-mode''"
    and "map (decode_line env) stdin = map Inr lines"
  shows "main env argv sched stdin w
           = \<lparr>proc_stdout = Text ''READY'' # map (\<lambda>line. Json (handle_request env w1 model line))
                               (take (answered_from sched 0 (length lines)) lines),
              exit_code = 0\<rparr>"
proof -
  let ?w2 = "w1\<lparr>stdout := stdout w1 @ [Text ''READY'']\<rparr>"
  obtain r w3 where s: "serve env model sched 0 stdin ?w2 = (r, w3)"
    by (cases "serve env model sched 0 stdin ?w2")
  have out: "stdout w1 = []"
    using load_model_securely_stdout [OF assms(1)] assms(2) by simp
  have t: "stdout w3 = Text ''READY'' # map (\<lambda>line. Json (handle_request env w1 model line))
                               (take (answered_from sched 0 (length lines)) lines)"
    and f: "r = Inr Returned \<or> r = Inr (SystemExit 0)"
    using serve_trace [OF assms(5) s] out by (simp_all add: handle_request_stdout)
  have rs: "run_server env sched stdin w = (r, w3)"
    using assms(1) s by (simp add: run_server_def)
  show ?thesis
    using f rs t assms(3,4) by (auto simp: main_def)
qed

lemma main_server_prefix:
  assumes "load_model_securely env w = (Inr model, w1)" and "stdout w = []"
    and "1 < length argv" and "argv ! 1 = ''--server-mode''"
  shows "\<exists>lines. map (decode_line env) (take (length lines) stdin) = map Inr lines
           \<and> proc_stdout (main env argv sched stdin w)
               = Text ''READY'' # map (\<lambda>line. Json (handle_request env w1 model line)) lines"
proof -
  let ?w2 = "w1\<lparr>stdout := stdout w1 @ [Text ''READY'']\<rparr>"
  obtain r w3 where s: "serve env model sched 0 stdin ?w2 = (r, w3)"
    by (cases "serve env model sched 0 stdin ?w2")
  have out: "stdout w1 = []"
    using load_model_securely_stdout [OF assms(1)] assms(2) by simp
  obtain lines where l: "map (decode_line env) (take (length lines) stdin) = map Inr lines"
    "stdout w3 = Text ''READY'' # map (\<lambda>line. Json (handle_request env w1 model line)) lines"
    using serve_prefix [OF s] out by (auto simp: handle_request_stdout)
  have rs: "run_server env sched stdin w = (r, w3)"
    using assms(1) s by (simp add: run_server_def)
  have "proc_stdout (main env argv sched stdin w) = stdout w3"
    using rs assms(3,4) by (auto simp: main_def split: sum.splits ending.splits)
  then show ?thesis using l by auto
qed

lemma handle_request_cases:
  "(\<exists>r. request_result env w model line = Inr r
        \<and> handle_request env w model line
            = JObj [(''success'', JBool True), (''data'', json_of_result r)])
   \<or> (\<exists>e. request_result env w model line = Inl e
        \<and> handle_request env w model line
            = JObj [(''success'', JBool False), (''error'', JStr (exn_msg e)),
                    (''error_type'', JStr (exn_type e))])"
  by (cases "request_result env w model line")
    (simp_all add: handle_request_def success_response_def error_response_def)

text \<open>
  In server mode, once the model is loaded, with request lines that all decode and no
  termination signal, the worker writes the readiness marker and then exactly one
  response line per request line, in the order of the request lines, and exits with
  status 0 when the input ends. An exception raised inside the \<^verbatim>\<open>try\<close> block is
  answered with a failure response and the loop goes on: a line that is not JSON, a
  request without \<^verbatim>\<open>imagePath\<close>, a path at which nothing exists, an image that
  cannot be read, and an exception of the forward pass.
\<close>

lemma readable_requests_answered:
  assumes "load_model_securely env w = (Inr model, w1)" and "stdout w = []"
    and "1 < length argv" and "argv ! 1 = ''--server-mode''"
    and "map (decode_line env) stdin = map Inr lines"
  shows "main env argv None stdin w
           = \<lparr>proc_stdout = Text ''READY''
                # map (\<lambda>line. Json (handle_request env w1 model line)) lines,
              exit_code = 0\<rparr>
     \<and> (\<forall>line e. request_result env w1 model line = Inl e
           \<longrightarrow> handle_request env w1 model line
                 = JObj [(''success'', JBool False), (''error'', JStr (exn_msg e)),
                         (''error_type'', JStr (exn_type e))])
     \<and> (\<forall>line e. json_loads env (strip line) = Inl e
           \<longrightarrow> request_result env w1 model line = Inl e)
     \<and> (\<forall>line items. json_loads env (strip line) = Inr (JObj items)
             \<and> map_of items ''imagePath'' = None
           \<longrightarrow> request_result env w1 model line
                 = Inl (Exn ''ValueError'' ''No imagePath provided''))
     \<and> (\<forall>line items p. json_loads env (strip line) = Inr (JObj items)
             \<and> map_of items ''imagePath'' = Some (JStr p) \<and> p \<noteq> []
             \<and> \<not> os_path_exists w1 p
           \<longrightarrow> request_result env w1 model line
                 = Inl (Exn ''FileNotFoundError'' (''Image not found: '' @ p)))
     \<and> (\<forall>line items p. json_loads env (strip line) = Inr (JObj items)
             \<and> map_of items ''imagePath'' = Some (JStr p) \<and> p \<noteq> []
             \<and> os_path_exists w1 p \<and> imread env (JStr p) = Inr None
           \<longrightarrow> request_result env w1 model line
                 = Inl (Exn ''ValueError'' (''Cannot read image: '' @ p)))
     \<and> (\<forall>line items p img e. json_loads env (strip line) = Inr (JObj items)
             \<and> map_of items ''imagePath'' = Some (JStr p) \<and> p \<noteq> []
             \<and> os_path_exists w1 p \<and> imread env (JStr p) = Inr (Some img)
             \<and> forward env model img = Inl e
           \<longrightarrow> request_result env w1 model line = Inl e)"
proof -
  have m: "main env argv None stdin w
             = \<lparr>proc_stdout = Text ''READY''
                  # map (\<lambda>line. Json (handle_request env w1 model line)) lines,
                exit_code = 0\<rparr>"
    using main_server_mode [OF assms, of None] by (simp add: answered_from_def)
  have a: "\<forall>line e. request_result env w1 model line = Inl e
             \<longrightarrow> handle_request env w1 model line
                   = JObj [(''success'', JBool False), (''error'', JStr (exn_msg e)),
                           (''error_type'', JStr (exn_type e))]"
    by (simp add: handle_request_def error_response_def)
  have b: "\<forall>line e. json_loads env (strip line) = Inl e
             \<longrightarrow> request_result env w1 model line = Inl e"
    by (simp add: request_result_def)
  have c: "\<forall>line items. json_loads env (strip line) = Inr (JObj items)
               \<and> map_of items ''imagePath'' = None
             \<longrightarrow> request_result env w1 model line
                   = Inl (Exn ''ValueError'' ''No imagePath provided'')"
    by (simp add: request_result_def dict_get_def truthy_def)
  have d: "\<forall>line items p. json_loads env (strip line) = Inr (JObj items)
               \<and> map_of items ''imagePath'' = Some (JStr p) \<and> p \<noteq> []
               \<and> \<not> os_path_exists w1 p
             \<longrightarrow> request_result env w1 model line
                   = Inl (Exn ''FileNotFoundError'' (''Image not found: '' @ p))"
    by (simp add: request_result_def dict_get_def truthy_def exists_value_def str_of_def)
  have e: "\<forall>line items p. json_loads env (strip line) = Inr (JObj items)
               \<and> map_of items ''imagePath'' = Some (JStr p) \<and> p \<noteq> []
               \<and> os_path_exists w1 p \<and> imread env (JStr p) = Inr None
             \<longrightarrow> request_result env w1 model line
                   = Inl (Exn ''ValueError'' (''Cannot read image: '' @ p))"
    by (simp add: request_result_def dict_get_def truthy_def exists_value_def str_of_def
        predict_def preprocess_image_def)
  have f: "\<forall>line items p img e. json_loads env (strip line) = Inr (JObj items)
               \<and> map_of items ''imagePath'' = Some (JStr p) \<and> p \<noteq> []
               \<and> os_path_exists w1 p \<and> imread env (JStr p) = Inr (Some img)
               \<and> forward env model img = Inl e
             \<longrightarrow> request_result env w1 model line = Inl e"
    by (simp add: request_result_def dict_get_def truthy_def exists_value_def
        predict_def preprocess_image_def)
  show ?thesis
    using a b c d e f by (simp add: m)
qed

text \<open>
  Removing a pattern from a string in which it does not occur changes nothing, and
  removing it from a string that starts with it and has it nowhere else leaves the
  rest.
\<close>

lemma replace_absent:
  assumes "old \<noteq> []" and "\<not> sublist old s"
  shows "replace s old [] = s"
  using assms(2)
proof (induction s)
  case Nil
  then show ?case using assms(1) by (simp add: replace.simps)
next
  case (Cons c cs)
  have np: "\<not> prefix old (c # cs)"
    using Cons.prems by auto
  have "\<not> sublist old cs"
    using Cons.prems by (simp add: sublist_Cons_right)
  then have "replace cs old [] = cs" by (rule Cons.IH)
  then show ?case
    using assms(1) np replace.simps [of "c # cs" old "[]"] by simp
qed

lemma replace_prefix_once:
  assumes "old \<noteq> []" and "prefix old s" and "\<not> sublist old (drop (length old) s)"
  shows "replace s old [] = drop (length old) s"
proof -
  have "s \<noteq> []" using assms(1,2) by auto
  then have "replace s old [] = replace (drop (length old) s) old []"
    using assms(1,2) replace.simps [of s old "[]"] by simp
  then show ?thesis
    using replace_absent [OF assms(1,3)] by simp
qed

text \<open>The configured classes are split as the naming convention says.\<close>

lemma parse_class_name_configured:
  "map parse_class_name classes =
     [(''Healthy'', None), (''Pest'', Some ''Fungal''), (''Pest'', Some ''Bacterial''),
      (''Pest'', Some ''Insect''), (''Nutrient Deficiency'', Some ''Nitrogen''),
      (''Nutrient Deficiency'', Some ''Potassium''), (''Water Stress'', None),
      (''Invalid Input'', None)]"
  by code_simp

subsection \<open>Claims\<close>

text \<open>
  C1 (as amended). For a stored container that parses: if its ciphertext is the one
  the encryption step wrote for the plaintext \<open>m\<close> and its metadata hash is not,
  loading fails with the integrity error; if the cipher rejects its ciphertext,
  loading fails with the error the cipher raised; whenever the digest of the
  decrypted bytes differs from the stored hash, \<open>decrypt_model\<close> raises the
  integrity error instead of returning the bytes; and \<open>decrypt_model\<close> returns
  bytes only when the cipher accepted the ciphertext and their digest is the stored
  hash. The code makes no check of its own on the ciphertext.
\<close>

theorem tamper_detection:
  assumes "read_file w path = Inr blob" and "torch_load env blob = Inr pkg"
  shows "(decrypt (cipher self) (encrypt (cipher self) m) = Inr m
            \<and> data pkg = data (container env self m)
            \<and> hash (metadata pkg) \<noteq> hash (metadata (container env self m))
          \<longrightarrow> decrypt_model env self path w = Inl integrity_error
              \<and> load_encrypted_model env \<lparr>encryptor = self\<rparr> path w = Inl integrity_error)
       \<and> (\<forall>e. decrypt (cipher self) (data pkg) = Inl e
            \<longrightarrow> decrypt_model env self path w = Inl e
                \<and> load_encrypted_model env \<lparr>encryptor = self\<rparr> path w = Inl e)
       \<and> (\<forall>p. decrypt (cipher self) (data pkg) = Inr p
              \<and> sha256_hexdigest env p \<noteq> hash (metadata pkg)
            \<longrightarrow> decrypt_model env self path w = Inl integrity_error
                \<and> load_encrypted_model env \<lparr>encryptor = self\<rparr> path w = Inl integrity_error)
       \<and> (\<forall>p. decrypt_model env self path w = Inr p
            \<longrightarrow> decrypt (cipher self) (data pkg) = Inr p
                \<and> sha256_hexdigest env p = hash (metadata pkg))"
proof -
  have a: "decrypt (cipher self) (encrypt (cipher self) m) = Inr m
            \<and> data pkg = data (container env self m)
            \<and> hash (metadata pkg) \<noteq> hash (metadata (container env self m))
          \<longrightarrow> decrypt_model env self path w = Inl integrity_error
              \<and> load_encrypted_model env \<lparr>encryptor = self\<rparr> path w = Inl integrity_error"
    using assms by (simp add: decrypt_model_def load_encrypted_model_def container_def)
  have b: "\<forall>e. decrypt (cipher self) (data pkg) = Inl e
            \<longrightarrow> decrypt_model env self path w = Inl e
                \<and> load_encrypted_model env \<lparr>encryptor = self\<rparr> path w = Inl e"
    using assms by (simp add: decrypt_model_def load_encrypted_model_def)
  have c: "\<forall>p. decrypt (cipher self) (data pkg) = Inr p
              \<and> sha256_hexdigest env p \<noteq> hash (metadata pkg)
            \<longrightarrow> decrypt_model env self path w = Inl integrity_error
                \<and> load_encrypted_model env \<lparr>encryptor = self\<rparr> path w = Inl integrity_error"
    using assms by (simp add: decrypt_model_def load_encrypted_model_def)
  have d: "\<forall>p. decrypt_model env self path w = Inr p
            \<longrightarrow> decrypt (cipher self) (data pkg) = Inr p
                \<and> sha256_hexdigest env p = hash (metadata pkg)"
    using decrypt_model_checked [OF assms] by blast
  show ?thesis using a b c d by blast
qed

theorem tamper_detection_witness:
  "decrypt_model example_env example_self ''saved_models/best_model.encrypted''
       flipped_hash_world = Inl integrity_error
   \<and> load_encrypted_model example_env \<lparr>encryptor = example_self\<rparr>
       ''saved_models/best_model.encrypted'' flipped_hash_world = Inl integrity_error
   \<and> decrypt_model example_env example_self ''saved_models/best_model.encrypted''
       flipped_ciphertext_world = Inl (Exn ''InvalidToken'' [])"
proof -
  let ?p = "''saved_models/best_model.encrypted''"
  let ?md = "\<lparr>original_size = 3, hash = ''h:abc'', version = ''1.0.0''\<rparr>"
  have a1: "read_file flipped_ciphertext_world ?p = Inr ''###|h:abc|Tok:cba''"
    by code_simp
  have a2: "torch_load example_env ''###|h:abc|Tok:cba''
              = Inr \<lparr>metadata = ?md, data = ''Tok:cba''\<rparr>"
    by code_simp
  have a3: "decrypt (cipher example_self) (data \<lparr>metadata = ?md, data = ''Tok:cba''\<rparr>)
              = Inl (Exn ''InvalidToken'' [])"
    by code_simp
  have b1: "read_file flipped_hash_world ?p = Inr ''###|h:abC|tok:cba''"
    by code_simp
  have b2: "torch_load example_env ''###|h:abC|tok:cba''
              = Inr \<lparr>metadata = ?md\<lparr>hash := ''h:abC''\<rparr>, data = ''tok:cba''\<rparr>"
    by code_simp
  have b3: "decrypt (cipher example_self) (encrypt (cipher example_self) ''abc'') = Inr ''abc''
            \<and> data \<lparr>metadata = ?md\<lparr>hash := ''h:abC''\<rparr>, data = ''tok:cba''\<rparr>
              = data (container example_env example_self ''abc'')
            \<and> hash (metadata \<lparr>metadata = ?md\<lparr>hash := ''h:abC''\<rparr>, data = ''tok:cba''\<rparr>)
              \<noteq> hash (metadata (container example_env example_self ''abc''))"
    by code_simp
  show ?thesis
    using tamper_detection [OF a1 a2, of example_self] a3
      tamper_detection [OF b1 b2, of example_self "''abc''"] b3
    by blast
qed

text \<open>
  C1 as stated fails for the ciphertext: where the cipher does not notice a changed
  bit of the token, the altered container loads. The stored token differs from the
  issued one in one bit of its last character, the stored hash is the one written,
  and \<open>decrypt_model\<close> returns the plaintext.
\<close>

theorem altered_ciphertext_loads:
  "data (container example_env slack_self ''abc'') = ''tok:cbaA''
   \<and> hash (metadata (container example_env slack_self ''abc'')) = ''h:abc''
   \<and> read_file slack_world ''saved_models/best_model.encrypted'' = Inr ''###|h:abc|tok:cbaC''
   \<and> torch_load example_env ''###|h:abc|tok:cbaC''
       = Inr \<lparr>metadata = \<lparr>original_size = 3, hash = ''h:abc'', version = ''1.0.0''\<rparr>,
              data = ''tok:cbaC''\<rparr>
   \<and> decrypt_model example_env slack_self ''saved_models/best_model.encrypted'' slack_world
       = Inr ''abc''"
  by code_simp

text \<open>
  C2. Encrypting the plaintext \<open>m\<close> of a model file into a container and decrypting
  that container with the same key gives \<open>m\<close> back: \<open>decrypt_model\<close> returns
  normally, the digest of the decrypted bytes being the stored hash. The cipher is
  taken to decrypt what it encrypted and \<^verbatim>\<open>torch.load\<close> to read back what
  \<^verbatim>\<open>torch.save\<close> wrote.
\<close>

theorem encrypt_decrypt_roundtrip:
  assumes "read_file w mpath = Inr m"
    and "encrypted_path \<notin> dirs w"
    and "decrypt (cipher self) (encrypt (cipher self) m) = Inr m"
    and "torch_load env (torch_save env (container env self m)) = Inr (container env self m)"
  shows "\<exists>w'. encrypt_model env self mpath encrypted_path w = (Inr encrypted_path, w')
           \<and> decrypt_model env self encrypted_path w' = Inr m
           \<and> sha256_hexdigest env m = hash (metadata (container env self m))"
proof -
  obtain w' where w': "encrypt_model env self mpath encrypted_path w = (Inr encrypted_path, w')"
      "files w' = (files w)(encrypted_path \<mapsto> torch_save env (container env self m))"
    using encrypt_model_package [OF assms(1,2)] by blast
  have "read_file w' encrypted_path = Inr (torch_save env (container env self m))"
    using w'(2) by (simp add: read_file_def)
  then have "decrypt_model env self encrypted_path w' = Inr m"
    using assms(3,4) by (simp add: decrypt_model_def container_def)
  then show ?thesis using w'(1) by (simp add: container_def)
qed

theorem encrypt_decrypt_roundtrip_witness:
  "\<exists>w'. encrypt_model example_env example_self ''saved_models/best_model.pth''
            ''saved_models/copy.encrypted'' example_world
          = (Inr ''saved_models/copy.encrypted'', w')
        \<and> decrypt_model example_env example_self ''saved_models/copy.encrypted'' w' = Inr ''abc''"
proof -
  have h1: "read_file example_world ''saved_models/best_model.pth'' = Inr ''abc''"
    by code_simp
  have h2: "''saved_models/copy.encrypted'' \<notin> dirs example_world"
    by (simp add: example_world_def)
  have h3: "decrypt (cipher example_self) (encrypt (cipher example_self) ''abc'') = Inr ''abc''"
    by code_simp
  have h4: "torch_load example_env (torch_save example_env
              (container example_env example_self ''abc''))
            = Inr (container example_env example_self ''abc'')"
    by code_simp
  show ?thesis
    using encrypt_decrypt_roundtrip [OF h1 h2 h3 h4] by blast
qed

text \<open>
  C3. The claim has every bad request line answered by a failure response while the
  worker goes on. A request line that does not decode is not answered: the loop
  header reads and decodes it outside the \<^verbatim>\<open>try\<close> block, the
  \<^verbatim>\<open>UnicodeDecodeError\<close> leaves \<^verbatim>\<open>main\<close>, and the worker ends with status 1
  without a response to that line or to the request after it. The same worker answers
  a line that is not a request and the request after it.
\<close>

theorem undecodable_line_ends_worker:
  "main example_env server_argv None [[CHR 0xFF], ''leaf''] example_world
     = \<lparr>proc_stdout = [Text ''READY''], exit_code = 1\<rparr>
   \<and> length (proc_stdout (main example_env server_argv None [''{}'', ''leaf'']
         example_world)) = 3"
  by code_simp

text \<open>
  C4 (as amended). Once the model is loaded, with request lines that decode, whatever
  the point at which a termination signal is handled, the worker exits with status 0
  and has answered exactly the requests listed by \<open>answered_from\<close>: every request
  before the one the signal falls in, that one only if its response line was already
  written, and none after it. Without a signal it answers all requests and exits with
  status 0.
\<close>

theorem signal_stops_worker:
  assumes "load_model_securely env w = (Inr model, w1)" and "stdout w = []"
    and "1 < length argv" and "argv ! 1 = ''--server-mode''"
    and "map (decode_line env) stdin = map Inr lines"
  shows "main env argv sched stdin w
           = \<lparr>proc_stdout = Text ''READY''
                # map (\<lambda>line. Json (handle_request env w1 model line))
                      (take (answered_from sched 0 (length lines)) lines),
              exit_code = 0\<rparr>
     \<and> answered_from None 0 n = n
     \<and> answered_from (Some (i, BeforeRead)) 0 n = min i n
     \<and> answered_from (Some (i, BeforeResponse)) 0 n = min i n
     \<and> answered_from (Some (i, AfterResponse)) 0 n = min (Suc i) n"
  using main_server_mode [OF assms, of sched]
  by (simp add: answered_from_def)

theorem signal_stops_worker_witness:
  "main example_env server_argv (Some (1, BeforeResponse))
       [''leaf'', ''{}'', ''gone'', ''leaf''] example_world
     = \<lparr>proc_stdout =
          [Text ''READY'',
           Json (handle_request example_env
                   (snd (load_model_securely example_env example_world)) ''abc'' ''leaf'')],
        exit_code = 0\<rparr>"
proof -
  let ?w1 = "snd (load_model_securely example_env example_world)"
  have "fst (load_model_securely example_env example_world) = Inr ''abc''"
    by code_simp
  then have h1: "load_model_securely example_env example_world = (Inr ''abc'', ?w1)"
    by (simp add: prod_eq_iff)
  have h2: "stdout example_world = []"
    by (simp add: example_world_def)
  have h3: "1 < length server_argv" "server_argv ! 1 = ''--server-mode''"
    by (simp_all add: server_argv_def)
  have h4: "map (decode_line example_env) [''leaf'', ''{}'', ''gone'', ''leaf'']
              = map Inr [''leaf'', ''{}'', ''gone'', ''leaf'']"
    by code_simp
  have n: "answered_from (Some (1, BeforeResponse)) 0
             (length [''leaf'', ''{}'', ''gone'', ''leaf'']) = 1"
    by (simp add: answered_from_def)
  show ?thesis
    using signal_stops_worker [OF h1 h2 h3 h4, of "Some (1, BeforeResponse)"]
    by (simp add: n)
qed

text \<open>
  C4 as stated fails: a signal handled while the first request is in flight (its line
  read, its response not yet written) ends the worker with status 0 and without a
  response to that request, which the same worker answers when no signal arrives.
\<close>

theorem signal_abandons_request_in_flight:
  "main example_env server_argv (Some (0, BeforeResponse)) [''leaf''] example_world
     = \<lparr>proc_stdout = [Text ''READY''], exit_code = 0\<rparr>
   \<and> length (proc_stdout (main example_env server_argv None [''leaf''] example_world)) = 2"
  by code_simp

text \<open>
  C5. When nothing exists at the key path as the worker starts in server mode, the
  process ends with exit status 1 and has written no line to standard output: the
  readiness marker is never emitted.
\<close>

theorem missing_key_no_ready:
  assumes "\<not> os_path_exists w (model_key_path env)"
    and "1 < length argv" and "argv ! 1 = ''--server-mode''"
    and "stdout w = []"
  shows "main env argv None stdin w = \<lparr>proc_stdout = [], exit_code = 1\<rparr>"
  using assms
  by (simp add: main_def run_server_def load_model_securely_def)

theorem missing_key_no_ready_witness:
  "main example_env server_argv None [''leaf''] keyless_world
     = \<lparr>proc_stdout = [], exit_code = 1\<rparr>"
proof -
  have h1: "\<not> os_path_exists keyless_world (model_key_path example_env)"
    by (simp add: os_path_exists_def keyless_world_def example_world_def example_env_def)
  have h2: "1 < length server_argv" "server_argv ! 1 = ''--server-mode''"
    by (simp_all add: server_argv_def)
  have h3: "stdout keyless_world = []"
    by (simp add: keyless_world_def example_world_def)
  show ?thesis
    by (rule missing_key_no_ready [OF h1 h2 h3])
qed

text \<open>
  C6 (as amended). For every class name: a name prefixed \<^verbatim>\<open>Pest_\<close> in which the
  prefix does not occur again after the prefix maps to category \<^verbatim>\<open>Pest\<close> with the
  remainder after the prefix as subtype; a name prefixed \<^verbatim>\<open>Nutrient_\<close> in which the
  prefix does not occur again maps to \<^verbatim>\<open>Nutrient Deficiency\<close> with the remainder as
  subtype; \<^verbatim>\<open>Healthy\<close>, \<^verbatim>\<open>Water_Stress\<close> and \<^verbatim>\<open>Not_Plant\<close> map to
  \<^verbatim>\<open>Healthy\<close>, \<^verbatim>\<open>Water Stress\<close> and \<^verbatim>\<open>Invalid Input\<close> without subtype; any
  other name maps to itself without subtype. Every configured class is covered.
\<close>

theorem parse_class_name_convention:
  "(startswith n ''Pest_'' \<and> \<not> sublist ''Pest_'' (drop (length ''Pest_'') n)
      \<longrightarrow> parse_class_name n = (''Pest'', Some (drop (length ''Pest_'') n)))
   \<and> (startswith n ''Nutrient_'' \<and> \<not> sublist ''Nutrient_'' (drop (length ''Nutrient_'') n)
      \<longrightarrow> parse_class_name n
            = (''Nutrient Deficiency'', Some (drop (length ''Nutrient_'') n)))
   \<and> parse_class_name ''Healthy'' = (''Healthy'', None)
   \<and> parse_class_name ''Water_Stress'' = (''Water Stress'', None)
   \<and> parse_class_name ''Not_Plant'' = (''Invalid Input'', None)
   \<and> (\<not> startswith n ''Pest_'' \<and> \<not> startswith n ''Nutrient_'' \<and> n \<noteq> ''Healthy''
        \<and> n \<noteq> ''Water_Stress'' \<and> n \<noteq> ''Not_Plant''
      \<longrightarrow> parse_class_name n = (n, None))
   \<and> map parse_class_name classes =
       [(''Healthy'', None), (''Pest'', Some ''Fungal''), (''Pest'', Some ''Bacterial''),
        (''Pest'', Some ''Insect''), (''Nutrient Deficiency'', Some ''Nitrogen''),
        (''Nutrient Deficiency'', Some ''Potassium''), (''Water Stress'', None),
        (''Invalid Input'', None)]"
proof -
  have p: "startswith n ''Pest_'' \<and> \<not> sublist ''Pest_'' (drop (length ''Pest_'') n)
      \<longrightarrow> parse_class_name n = (''Pest'', Some (drop (length ''Pest_'') n))"
    using replace_prefix_once [of "''Pest_''" n]
    by (simp add: parse_class_name_def startswith_def)
  have q: "startswith n ''Nutrient_''
        \<and> \<not> sublist ''Nutrient_'' (drop (length ''Nutrient_'') n)
      \<longrightarrow> parse_class_name n
            = (''Nutrient Deficiency'', Some (drop (length ''Nutrient_'') n))"
    using replace_prefix_once [of "''Nutrient_''" n]
    by (auto simp: parse_class_name_def startswith_def prefix_def)
  have h: "parse_class_name ''Healthy'' = (''Healthy'', None)"
    "parse_class_name ''Water_Stress'' = (''Water Stress'', None)"
    "parse_class_name ''Not_Plant'' = (''Invalid Input'', None)"
    by (simp_all add: parse_class_name_def startswith_def)
  have o: "\<not> startswith n ''Pest_'' \<and> \<not> startswith n ''Nutrient_'' \<and> n \<noteq> ''Healthy''
        \<and> n \<noteq> ''Water_Stress'' \<and> n \<noteq> ''Not_Plant''
      \<longrightarrow> parse_class_name n = (n, None)"
    by (simp add: parse_class_name_def)
  show ?thesis
    using p q h o parse_class_name_configured by simp
qed

theorem parse_class_name_convention_witness:
  "parse_class_name ''Pest_Insect'' = (''Pest'', Some ''Insect'')
   \<and> parse_class_name ''Nutrient_Zinc'' = (''Nutrient Deficiency'', Some ''Zinc'')
   \<and> parse_class_name ''Rust'' = (''Rust'', None)"
proof -
  have a: "startswith ''Pest_Insect'' ''Pest_''
      \<and> \<not> sublist ''Pest_'' (drop (length ''Pest_'') ''Pest_Insect'')"
    by code_simp
  have b: "startswith ''Nutrient_Zinc'' ''Nutrient_''
      \<and> \<not> sublist ''Nutrient_'' (drop (length ''Nutrient_'') ''Nutrient_Zinc'')"
    by code_simp
  have c: "\<not> startswith ''Rust'' ''Pest_'' \<and> \<not> startswith ''Rust'' ''Nutrient_''
      \<and> ''Rust'' \<noteq> ''Healthy'' \<and> ''Rust'' \<noteq> ''Water_Stress'' \<and> ''Rust'' \<noteq> ''Not_Plant''"
    by code_simp
  have "parse_class_name ''Pest_Insect''
          = (''Pest'', Some (drop (length ''Pest_'') ''Pest_Insect''))"
    using parse_class_name_convention [of "''Pest_Insect''"] a by blast
  moreover have "parse_class_name ''Nutrient_Zinc''
          = (''Nutrient Deficiency'', Some (drop (length ''Nutrient_'') ''Nutrient_Zinc''))"
    using parse_class_name_convention [of "''Nutrient_Zinc''"] b by blast
  moreover have "parse_class_name ''Rust'' = (''Rust'', None)"
    using parse_class_name_convention [of "''Rust''"] c by blast
  ultimately show ?thesis by simp
qed

text \<open>
  C6 as stated fails for a name in which the prefix occurs again: the code removes
  every occurrence of the prefix, so for \<^verbatim>\<open>Pest_Pest_A\<close>, whose remainder after the
  prefix is \<^verbatim>\<open>Pest_A\<close>, \<open>parse_class_name\<close> returns the subtype \<^verbatim>\<open>A\<close>.
\<close>

theorem parse_class_name_repeated_prefix:
  "parse_class_name ''Pest_Pest_A'' = (''Pest'', Some ''A'')
   \<and> drop (length ''Pest_'') ''Pest_Pest_A'' = ''Pest_A''"
  by code_simp

text \<open>
  C7. The confidence band is an inclusive-lower-bound ladder: Very High from 0.85,
  High from 0.70 up to 0.85, Moderate from 0.55 up to 0.70, Low below 0.55; the
  boundary values 0.85 and 0.70 fall in the upper band, 0.8499 is High and 0.5499
  is Low. The confidence and the thresholds are read as real numbers: the comparisons
  of the source round nothing.
\<close>

theorem get_confidence_level_ladder:
  "(get_confidence_level c = ''Very High'') = (0.85 \<le> c)
   \<and> (get_confidence_level c = ''High'') = (0.70 \<le> c \<and> c < 0.85)
   \<and> (get_confidence_level c = ''Moderate'') = (0.55 \<le> c \<and> c < 0.70)
   \<and> (get_confidence_level c = ''Low'') = (c < 0.55)
   \<and> get_confidence_level 0.85 = ''Very High''
   \<and> get_confidence_level 0.8499 = ''High''
   \<and> get_confidence_level 0.70 = ''High''
   \<and> get_confidence_level 0.5499 = ''Low''"
  by (simp add: get_confidence_level_def)

text \<open>
  C8. For a probability vector with one entry per configured class, \<open>predict\<close>
  builds a result whose ranked list pairs every class of the class list, exactly once,
  with its own probability, in descending order of confidence; entries of equal
  confidence keep the order of the class list (for every value, the entries with that
  confidence are, in this order, the classes of the class list that have it).
\<close>

theorem ranked_probabilities_sorted_stable:
  assumes "length probabilities = length classes"
  shows "\<exists>r. predict_result env probabilities = Inr r
     \<and> mset (map (\<lambda>e. (prob_class e, prob_confidence e)) (all_probabilities r))
         = mset (zip classes probabilities)
     \<and> mset (map prob_class (all_probabilities r)) = mset classes
     \<and> distinct (map prob_class (all_probabilities r))
     \<and> sorted_wrt (\<lambda>a b. prob_confidence a \<ge> prob_confidence b) (all_probabilities r)
     \<and> (\<forall>v. filter (\<lambda>(c, p). p = v)
                 (map (\<lambda>e. (prob_class e, prob_confidence e)) (all_probabilities r))
            = filter (\<lambda>(c, p). p = v) (zip classes probabilities))"
proof -
  let ?pair = "\<lambda>e. (prob_class e, prob_confidence e)"
  have ne: "probabilities \<noteq> []" using assms by (auto simp: classes_def)
  have idx: "argmax probabilities < length classes"
    using argmax_bound [OF ne] assms by simp
  define ranked where "ranked = sort_reverse prob_confidence (all_probs probabilities)"
  obtain r where r: "predict_result env probabilities = Inr r" "all_probabilities r = ranked"
    using ne idx assms
    by (simp add: predict_result_def Let_def ranked_def split_beta)
  have z: "map ?pair (all_probs probabilities) = zip classes probabilities"
    by (rule all_probs_pairs [OF assms])
  have m: "mset ranked = mset (all_probs probabilities)"
    by (simp add: ranked_def sort_reverse_mset)
  have mp: "mset (map ?pair ranked) = mset (zip classes probabilities)"
    using m z by (metis mset_map)
  have mc: "mset (map prob_class ranked) = mset classes"
    using m all_probs_classes [of probabilities] by (metis mset_map)
  have d: "distinct (map prob_class ranked)"
    using mc distinct_classes by (metis mset_eq_imp_distinct_iff)
  have s: "sorted_wrt (\<lambda>a b. prob_confidence a \<ge> prob_confidence b) ranked"
    unfolding ranked_def by (rule sort_reverse_sorted)
  have f: "filter (\<lambda>(c, p). p = v) (map ?pair ranked)
             = filter (\<lambda>(c, p). p = v) (zip classes probabilities)" for v
  proof -
    have "filter (\<lambda>(c, p). p = v) (map ?pair ranked)
            = map ?pair (filter (\<lambda>e. prob_confidence e = v) ranked)"
      by (simp add: filter_map comp_def)
    also have "\<dots> = map ?pair (filter (\<lambda>e. prob_confidence e = v) (all_probs probabilities))"
      by (simp add: ranked_def sort_reverse_stable)
    also have "\<dots> = filter (\<lambda>(c, p). p = v) (map ?pair (all_probs probabilities))"
      by (simp add: filter_map comp_def)
    finally show ?thesis by (simp add: z)
  qed
  show ?thesis
    using r mp mc d s f by auto
qed

theorem ranked_probabilities_sorted_stable_witness:
  "\<exists>r. predict_result example_env example_probabilities = Inr r
     \<and> sorted_wrt (\<lambda>a b. prob_confidence a \<ge> prob_confidence b) (all_probabilities r)
     \<and> filter (\<lambda>(c, p). p = 0.05)
         (map (\<lambda>e. (prob_class e, prob_confidence e)) (all_probabilities r))
       = [(''Healthy'', 0.05), (''Water_Stress'', 0.05), (''Not_Plant'', 0.05)]"
proof -
  have h: "length example_probabilities = length classes"
    by (simp add: example_probabilities_def classes_def)
  have z: "filter (\<lambda>(c, p). p = 0.05) (zip classes example_probabilities)
             = [(''Healthy'', 0.05), (''Water_Stress'', 0.05), (''Not_Plant'', 0.05)]"
    by (simp add: example_probabilities_def classes_def)
  obtain r where r: "predict_result example_env example_probabilities = Inr r"
      "sorted_wrt (\<lambda>a b. prob_confidence a \<ge> prob_confidence b) (all_probabilities r)"
      "\<And>v. filter (\<lambda>(c, p). p = v)
               (map (\<lambda>e. (prob_class e, prob_confidence e)) (all_probabilities r))
             = filter (\<lambda>(c, p). p = v) (zip classes example_probabilities)"
    using ranked_probabilities_sorted_stable [OF h, of example_env] by blast
  show ?thesis
    using r(1,2) r(3) [of "0.05"] z by auto
qed


text \<open>
  C10. Every line the server-mode worker writes after the readiness marker, with or
  without a termination signal, is the response dictionary of one of the first request
  lines, in their order. That dictionary is either \<^verbatim>\<open>success\<close> true followed by
  \<^verbatim>\<open>data\<close>, the result of \<open>predict\<close>, and nothing else, or \<^verbatim>\<open>success\<close> false
  followed by \<^verbatim>\<open>error\<close>, the message of the exception raised, and
  \<^verbatim>\<open>error_type\<close>, the name of its class, and nothing else.
\<close>

theorem response_shape:
  assumes "load_model_securely env w = (Inr model, w1)" and "stdout w = []"
    and "1 < length argv" and "argv ! 1 = ''--server-mode''"
  shows "(\<exists>lines. map (decode_line env) (take (length lines) stdin) = map Inr lines
            \<and> proc_stdout (main env argv sched stdin w)
                = Text ''READY''
                   # map (\<lambda>line. Json (handle_request env w1 model line)) lines)
     \<and> (\<forall>line.
           (\<exists>r. request_result env w1 model line = Inr r
              \<and> handle_request env w1 model line
                  = JObj [(''success'', JBool True), (''data'', json_of_result r)])
         \<or> (\<exists>e. request_result env w1 model line = Inl e
              \<and> handle_request env w1 model line
                  = JObj [(''success'', JBool False), (''error'', JStr (exn_msg e)),
                          (''error_type'', JStr (exn_type e))]))"
  using main_server_prefix [OF assms, of stdin sched] handle_request_cases [of env w1 model]
  by blast

theorem response_shape_witness:
  "\<exists>lines. map (decode_line example_env)
              (take (length lines) [''leaf'', ''{}'', ''gone'', ''leaf'']) = map Inr lines
      \<and> proc_stdout (main example_env server_argv (Some (2, AfterResponse))
              [''leaf'', ''{}'', ''gone'', ''leaf''] example_world)
          = Text ''READY''
             # map (\<lambda>line. Json (handle_request example_env
                      (snd (load_model_securely example_env example_world)) ''abc'' line))
                 lines"
proof -
  let ?w1 = "snd (load_model_securely example_env example_world)"
  have "fst (load_model_securely example_env example_world) = Inr ''abc''"
    by code_simp
  then have h1: "load_model_securely example_env example_world = (Inr ''abc'', ?w1)"
    by (simp add: prod_eq_iff)
  have h2: "stdout example_world = []"
    by (simp add: example_world_def)
  have h3: "1 < length server_argv" "server_argv ! 1 = ''--server-mode''"
    by (simp_all add: server_argv_def)
  show ?thesis
    by (rule response_shape [OF h1 h2 h3, THEN conjunct1])
qed

end
